theory Spec2Isabelle
  imports Main "HOL-Library.Word" "HOL-Library.Signed_Division"
begin

section \<open>The graphics library as the widget sees it\<close>

text \<open>
  Modelled from the spec: the retained-mode graphics surface (LVGL, which is not part of
  the repository), as far as the widget uses it: create a container, create a label, set
  a text. The widget writes into LVGL objects through pointers. A pointer is an index into
  the list of objects created so far, \<open>None\<close> is \<open>NULL\<close>. The glyph macros
  (\<open>LV_SYMBOL_WIFI\<close>, \<open>LV_SYMBOL_BATTERY_FULL\<close>, ...) come from \<open>lvgl.h\<close>, which is
  not part of the repository: they are kept as opaque, pairwise different glyph names.
  A label shows either such a glyph or a character string.
\<close>

datatype lv_symbol =
    LV_SYMBOL_WIFI
  | LV_SYMBOL_BATTERY_FULL
  | LV_SYMBOL_BATTERY_3
  | LV_SYMBOL_BATTERY_2
  | LV_SYMBOL_BATTERY_1
  | LV_SYMBOL_BATTERY_EMPTY

datatype label_text = Symbol lv_symbol | Chars string

type_synonym lv_obj_ptr = "nat option"

record lv_obj =
  obj_parent :: lv_obj_ptr
  obj_text :: "label_text option"

type_synonym lv_display = "lv_obj list"

text \<open>\<open>lv_obj_create(parent)\<close>: a new plain object, no text.\<close>

definition lv_obj_create :: "lv_obj_ptr \<Rightarrow> lv_display \<Rightarrow> lv_obj_ptr \<times> lv_display" where
  "lv_obj_create parent d =
     (Some (length d), d @ [\<lparr>obj_parent = parent, obj_text = None\<rparr>])"

text \<open>\<open>lv_label_create(parent)\<close>: a new label; LVGL gives it the text "Text".\<close>

definition lv_label_create :: "lv_obj_ptr \<Rightarrow> lv_display \<Rightarrow> lv_obj_ptr \<times> lv_display" where
  "lv_label_create parent d =
     (Some (length d), d @ [\<lparr>obj_parent = parent, obj_text = Some (Chars ''Text'')\<rparr>])"

text \<open>
  \<open>lv_label_set_text(obj, text)\<close>: only the text of the object pointed to changes.
  The source calls it on a pointer it has just created or has checked against \<open>NULL\<close>;
  for a null pointer, or one that points to no object, the model leaves the display as it is.
\<close>

definition lv_label_set_text :: "lv_obj_ptr \<Rightarrow> label_text \<Rightarrow> lv_display \<Rightarrow> lv_display" where
  "lv_label_set_text p t d =
     (case p of
        None \<Rightarrow> d
      | Some h \<Rightarrow> if h < length d then d[h := (d ! h)\<lparr>obj_text := Some t\<rparr>] else d)"

text \<open>What a label shows (\<open>lv_label_get_text\<close>); \<open>None\<close> where there is no label.\<close>

definition label_shown :: "lv_display \<Rightarrow> lv_obj_ptr \<Rightarrow> label_text option" where
  "label_shown d p =
     (case p of
        None \<Rightarrow> None
      | Some h \<Rightarrow> if h < length d then obj_text (d ! h) else None)"

section \<open>What the firmware reports\<close>

text \<open>
  The four queries of the host, taken as inputs: \<open>zmk_usb_is_powered()\<close>,
  \<open>zmk_ble_active_profile_is_connected()\<close>, \<open>zmk_battery_state_of_charge()\<close> (a
  \<open>uint8_t\<close>) and \<open>k_uptime_get()\<close> (an \<open>int64_t\<close> of milliseconds).
\<close>

record env =
  zmk_usb_is_powered :: bool
  zmk_ble_active_profile_is_connected :: bool
  zmk_battery_state_of_charge :: "8 word"
  k_uptime_get :: "64 word"

section \<open>Integer arithmetic of C\<close>

text \<open>
  \<open>/\<close> and \<open>%\<close> on signed operands truncate towards zero; the result is stored
  back in the operand width.
\<close>

definition c_div :: "'a::len word \<Rightarrow> 'a word \<Rightarrow> 'a word" where
  "c_div a b = word_of_int (sint a sdiv sint b)"

definition c_mod :: "'a::len word \<Rightarrow> 'a word \<Rightarrow> 'a word" where
  "c_mod a b = word_of_int (sint a smod sint b)"

subsection \<open>\<open>snprintf(buf, size, "%02d:%02d", h, m)\<close>\<close>

definition digit_char :: "nat \<Rightarrow> char" where
  "digit_char n = ''0123456789'' ! (n mod 10)"

fun decimal :: "nat \<Rightarrow> string" where
  "decimal n = (if n < 10 then [digit_char n] else decimal (n div 10) @ [digit_char (n mod 10)])"

declare decimal.simps [simp del]

text \<open>\<open>%02d\<close>: at least two characters, padded with zeros on the left, the sign counted.\<close>

definition fmt_02d :: "int \<Rightarrow> string" where
  "fmt_02d n =
     (if n < 0 then CHR ''-'' # decimal (nat (- n))
      else replicate (2 - length (decimal (nat n))) (CHR ''0'') @ decimal (nat n))"

text \<open>The buffer of \<open>n\<close> bytes keeps at most \<open>n - 1\<close> characters before the NUL.\<close>

definition snprintf_02d_02d :: "nat \<Rightarrow> int \<Rightarrow> int \<Rightarrow> string" where
  "snprintf_02d_02d n h m = take (n - 1) (fmt_02d h @ '':'' @ fmt_02d m)"

section \<open>The computations shared by the three source variants\<close>

text \<open>
  The body of \<open>update_time_display\<close> (and of \<open>update_time\<close>) up to the call that
  writes the label: \<open>int total_seconds = (uptime_ms / 1000) % 86400\<close> is computed in 64
  bits and stored in an \<open>int\<close>, hours and minutes are computed in \<open>int\<close>.
\<close>

definition total_seconds :: "64 word \<Rightarrow> 32 word" where
  "total_seconds uptime_ms = scast (c_mod (c_div uptime_ms 1000) 86400)"

definition hours :: "32 word \<Rightarrow> 32 word" where
  "hours ts = c_mod (c_div ts 3600) 24"

definition minutes :: "32 word \<Rightarrow> 32 word" where
  "minutes ts = c_div (c_mod ts 3600) 60"

definition time_str :: "64 word \<Rightarrow> string" where
  "time_str uptime_ms =
     snprintf_02d_02d 6 (sint (hours (total_seconds uptime_ms)))
                        (sint (minutes (total_seconds uptime_ms)))"

text \<open>
  The chain of comparisons of \<open>update_battery_icon\<close> (and of \<open>set_battery_status\<close>) on
  the \<open>uint8_t\<close> level.
\<close>

definition battery_level_text :: "8 word \<Rightarrow> label_text" where
  "battery_level_text battery_level =
     (if battery_level > 80 then Symbol LV_SYMBOL_BATTERY_FULL
      else if battery_level > 60 then Symbol LV_SYMBOL_BATTERY_3
      else if battery_level > 40 then Symbol LV_SYMBOL_BATTERY_2
      else if battery_level > 20 then Symbol LV_SYMBOL_BATTERY_1
      else Symbol LV_SYMBOL_BATTERY_EMPTY)"

definition WIFI_ICON :: label_text where
  "WIFI_ICON = Symbol LV_SYMBOL_WIFI"

definition NO_WIFI_ICON :: label_text where
  "NO_WIFI_ICON = Chars ''  ''"

section \<open>The kernel's delayable work\<close>

text \<open>
  Modelled from the spec: the recurring-timer primitive of the host (Zephyr's
  \<open>struct k_work_delayable\<close>, which is not part of the repository), as far as the
  widget uses it: the handler that
  was installed and, while the item is scheduled, the delay in milliseconds after which
  the work queue runs the handler. \<open>k_work_schedule\<close> leaves an item that is already
  scheduled as it is. The only handler of the repository is \<open>time_update_work_handler\<close>.
\<close>

datatype work_fn = TIME_UPDATE_WORK_HANDLER

record k_work_delayable =
  work_handler :: "work_fn option"
  work_delay :: "nat option"

definition K_SECONDS :: "nat \<Rightarrow> nat" where
  "K_SECONDS n = n * 1000"

definition k_work_init_delayable :: "work_fn \<Rightarrow> k_work_delayable" where
  "k_work_init_delayable handler = \<lparr>work_handler = Some handler, work_delay = None\<rparr>"

definition k_work_schedule :: "k_work_delayable \<Rightarrow> nat \<Rightarrow> k_work_delayable" where
  "k_work_schedule w delay = (if work_delay w = None then w\<lparr>work_delay := Some delay\<rparr> else w)"

section \<open>\<open>arionaryabhatta_widget.c\<close>: the widget with file-level handles\<close>

text \<open>
  The four label pointers (the same four fields make up \<open>struct status_state\<close> of the
  status screen), the display they point into, and the two other statics of the file.
  Calls that only set size, position, alignment, colour or font do not touch a text and
  are left out.
\<close>

record status_state =
  connection_icon :: lv_obj_ptr
  time_label :: lv_obj_ptr
  date_label :: lv_obj_ptr
  battery_icon :: lv_obj_ptr

record status_screen = status_state +
  lv :: lv_display

record status_widget = status_screen +
  is_connected :: bool
  time_update_work :: k_work_delayable

text \<open>The statics before any call: null pointers, \<open>is_connected = false\<close>, a zeroed work item.\<close>

definition widget_boot :: "lv_display \<Rightarrow> status_widget" where
  "widget_boot d =
     \<lparr>connection_icon = None, time_label = None, date_label = None, battery_icon = None,
      lv = d, is_connected = False,
      time_update_work = \<lparr>work_handler = None, work_delay = None\<rparr>\<rparr>"

definition update_connection_icon :: "env \<Rightarrow> status_widget \<Rightarrow> status_widget" where
  "update_connection_icon e s =
     (if connection_icon s = None then s
      else if zmk_usb_is_powered e then
        s\<lparr>lv := lv_label_set_text (connection_icon s) WIFI_ICON (lv s), is_connected := True\<rparr>
      else if zmk_ble_active_profile_is_connected e then
        s\<lparr>lv := lv_label_set_text (connection_icon s) WIFI_ICON (lv s), is_connected := True\<rparr>
      else
        s\<lparr>lv := lv_label_set_text (connection_icon s) NO_WIFI_ICON (lv s), is_connected := False\<rparr>)"

definition update_time_display :: "env \<Rightarrow> status_widget \<Rightarrow> status_widget" where
  "update_time_display e s =
     (if time_label s = None then s
      else s\<lparr>lv := lv_label_set_text (time_label s) (Chars (time_str (k_uptime_get e))) (lv s)\<rparr>)"

definition update_date_display :: "status_widget \<Rightarrow> status_widget" where
  "update_date_display s =
     (if date_label s = None then s
      else s\<lparr>lv := lv_label_set_text (date_label s) (Chars ''27/10/2025'') (lv s)\<rparr>)"

definition update_battery_icon :: "env \<Rightarrow> status_widget \<Rightarrow> status_widget" where
  "update_battery_icon e s =
     (if battery_icon s = None then s
      else s\<lparr>lv := lv_label_set_text (battery_icon s)
                   (battery_level_text (zmk_battery_state_of_charge e)) (lv s)\<rparr>)"

definition time_update_work_handler :: "env \<Rightarrow> status_widget \<Rightarrow> status_widget" where
  "time_update_work_handler e s =
     (let s1 = update_time_display e s
      in s1\<lparr>time_update_work := k_work_schedule (time_update_work s1) (K_SECONDS 1)\<rparr>)"

definition widget_battery_status_update_cb :: "env \<Rightarrow> status_widget \<Rightarrow> status_widget" where
  "widget_battery_status_update_cb e s = update_battery_icon e s"

definition widget_event_listener :: "env \<Rightarrow> status_widget \<Rightarrow> int \<times> status_widget" where
  "widget_event_listener e s = (0, update_connection_icon e s)"

definition zmk_widget_status_init :: "env \<Rightarrow> lv_obj_ptr \<Rightarrow> status_widget \<Rightarrow> int \<times> status_widget" where
  "zmk_widget_status_init e parent s0 =
     (let screen = parent;
          (top_row, d1) = lv_obj_create screen (lv s0);
          (ci, d2) = lv_label_create top_row d1;
          s1 = s0\<lparr>connection_icon := ci, lv := lv_label_set_text ci WIFI_ICON d2\<rparr>;
          (dl, d3) = lv_label_create top_row (lv s1);
          s2 = s1\<lparr>date_label := dl, lv := lv_label_set_text dl (Chars ''27/10/2025'') d3\<rparr>;
          (bi, d4) = lv_label_create top_row (lv s2);
          s3 = s2\<lparr>battery_icon := bi,
                  lv := lv_label_set_text bi (Symbol LV_SYMBOL_BATTERY_FULL) d4\<rparr>;
          (tl, d5) = lv_label_create screen (lv s3);
          s4 = s3\<lparr>time_label := tl, lv := lv_label_set_text tl (Chars ''20:20'') d5\<rparr>;
          s5 = update_connection_icon e s4;
          s6 = update_date_display s5;
          s7 = update_battery_icon e s6;
          s8 = update_time_display e s7;
          s9 = s8\<lparr>time_update_work := k_work_init_delayable TIME_UPDATE_WORK_HANDLER\<rparr>;
          s10 = s9\<lparr>time_update_work := k_work_schedule (time_update_work s9) (K_SECONDS 1)\<rparr>
      in (0, s10))"

definition zmk_widget_status_obj :: "status_widget \<Rightarrow> lv_obj_ptr" where
  "zmk_widget_status_obj s = None"

subsection \<open>The host around the widget\<close>

text \<open>
  Modelled from the spec: the work queue of the host, which owns the recurring timer.
  When the delay of a scheduled item has run out, the item is no longer
  scheduled and its handler runs. An item that is not scheduled, or has no handler, is
  not run.
\<close>

definition work_queue_run :: "env \<Rightarrow> status_widget \<Rightarrow> status_widget" where
  "work_queue_run e s =
     (case (work_delay (time_update_work s), work_handler (time_update_work s)) of
        (Some delay, Some TIME_UPDATE_WORK_HANDLER) \<Rightarrow>
          time_update_work_handler e (s\<lparr>time_update_work := (time_update_work s)\<lparr>work_delay := None\<rparr>\<rparr>)
      | _ \<Rightarrow> s)"

text \<open>
  What can happen to the widget: the display manager mounts it, the event manager
  delivers a USB or a battery event, the delay of the work item runs out. Each event
  carries what the firmware reports at that moment.
\<close>

datatype event =
    Mount env lv_obj_ptr
  | Usb_conn_state_changed env
  | Battery_state_changed env
  | Work_timeout env

fun dispatch :: "status_widget \<Rightarrow> event \<Rightarrow> status_widget" where
  "dispatch s (Mount e parent) = snd (zmk_widget_status_init e parent s)"
| "dispatch s (Usb_conn_state_changed e) = snd (widget_event_listener e s)"
| "dispatch s (Battery_state_changed e) = widget_battery_status_update_cb e s"
| "dispatch s (Work_timeout e) = work_queue_run e s"

definition run :: "lv_display \<Rightarrow> event list \<Rightarrow> status_widget" where
  "run d evs = foldl dispatch (widget_boot d) evs"

section \<open>The widget with a \<open>struct zmk_widget_status\<close> per instance\<close>

text \<open>
  The second variant keeps the pointers in a struct of the caller and passes the label to
  each update function. Its names are those of the first file; here they carry the suffix
  \<open>_inst\<close>.
\<close>

record zmk_widget_status = status_state +
  obj :: lv_obj_ptr

definition update_connection_icon_inst :: "env \<Rightarrow> lv_obj_ptr \<Rightarrow> lv_display \<Rightarrow> lv_display" where
  "update_connection_icon_inst e icon d =
     (if icon = None then d
      else if zmk_usb_is_powered e \<or> zmk_ble_active_profile_is_connected e then
        lv_label_set_text icon WIFI_ICON d
      else lv_label_set_text icon NO_WIFI_ICON d)"

definition update_time_display_inst :: "env \<Rightarrow> lv_obj_ptr \<Rightarrow> lv_display \<Rightarrow> lv_display" where
  "update_time_display_inst e label d =
     (if label = None then d
      else lv_label_set_text label (Chars (time_str (k_uptime_get e))) d)"

definition update_battery_icon_inst :: "env \<Rightarrow> lv_obj_ptr \<Rightarrow> lv_display \<Rightarrow> lv_display" where
  "update_battery_icon_inst e icon d =
     (if icon = None then d
      else lv_label_set_text icon (battery_level_text (zmk_battery_state_of_charge e)) d)"

text \<open>The handler of this variant has an empty body: the work item and the display stay as they are.\<close>

definition time_update_work_handler_inst ::
  "env \<Rightarrow> k_work_delayable \<times> lv_display \<Rightarrow> k_work_delayable \<times> lv_display" where
  "time_update_work_handler_inst e s = s"

definition zmk_widget_status_init_inst ::
  "env \<Rightarrow> zmk_widget_status \<Rightarrow> lv_obj_ptr \<Rightarrow> lv_display \<Rightarrow> int \<times> zmk_widget_status \<times> lv_display" where
  "zmk_widget_status_init_inst e widget parent d0 =
     (let (o1, d1) = lv_obj_create parent d0;
          w1 = widget\<lparr>obj := o1\<rparr>;
          (top_row, d2) = lv_obj_create (obj w1) d1;
          (ci, d3) = lv_label_create top_row d2;
          w2 = w1\<lparr>connection_icon := ci\<rparr>;
          d4 = lv_label_set_text (connection_icon w2) WIFI_ICON d3;
          (dl, d5) = lv_label_create top_row d4;
          w3 = w2\<lparr>date_label := dl\<rparr>;
          d6 = lv_label_set_text (date_label w3) (Chars ''27/10/2025'') d5;
          (bi, d7) = lv_label_create top_row d6;
          w4 = w3\<lparr>battery_icon := bi\<rparr>;
          d8 = lv_label_set_text (battery_icon w4) (Symbol LV_SYMBOL_BATTERY_FULL) d7;
          (tl, d9) = lv_label_create (obj w4) d8;
          w5 = w4\<lparr>time_label := tl\<rparr>;
          d10 = lv_label_set_text (time_label w5) (Chars ''20:20'') d9;
          d11 = update_connection_icon_inst e (connection_icon w5) d10;
          d12 = update_battery_icon_inst e (battery_icon w5) d11;
          d13 = update_time_display_inst e (time_label w5) d12
      in (0, w5, d13))"

definition zmk_widget_status_obj_inst :: "zmk_widget_status \<Rightarrow> lv_obj_ptr" where
  "zmk_widget_status_obj_inst widget = obj widget"

section \<open>The status screen with a static \<open>struct status_state\<close>\<close>

definition screen_boot :: "lv_display \<Rightarrow> status_screen" where
  "screen_boot d =
     \<lparr>connection_icon = None, time_label = None, date_label = None, battery_icon = None,
      lv = d\<rparr>"

definition set_connection_status :: "env \<Rightarrow> status_screen \<Rightarrow> status_screen" where
  "set_connection_status e s =
     (if connection_icon s = None then s
      else if zmk_usb_is_powered e \<or> zmk_ble_active_profile_is_connected e then
        s\<lparr>lv := lv_label_set_text (connection_icon s) WIFI_ICON (lv s)\<rparr>
      else s\<lparr>lv := lv_label_set_text (connection_icon s) NO_WIFI_ICON (lv s)\<rparr>)"

definition set_battery_status :: "env \<Rightarrow> status_screen \<Rightarrow> status_screen" where
  "set_battery_status e s =
     (if battery_icon s = None then s
      else s\<lparr>lv := lv_label_set_text (battery_icon s)
                   (battery_level_text (zmk_battery_state_of_charge e)) (lv s)\<rparr>)"

definition update_time :: "env \<Rightarrow> status_screen \<Rightarrow> status_screen" where
  "update_time e s =
     (if time_label s = None then s
      else s\<lparr>lv := lv_label_set_text (time_label s) (Chars (time_str (k_uptime_get e))) (lv s)\<rparr>)"

definition zmk_display_status_screen :: "env \<Rightarrow> status_screen \<Rightarrow> lv_obj_ptr \<times> status_screen" where
  "zmk_display_status_screen e s0 =
     (let (screen, d1) = lv_obj_create None (lv s0);
          (top_bar, d2) = lv_obj_create screen d1;
          (ci, d3) = lv_label_create top_bar d2;
          s1 = s0\<lparr>connection_icon := ci, lv := d3\<rparr>;
          (dl, d4) = lv_label_create top_bar (lv s1);
          s2 = s1\<lparr>date_label := dl, lv := lv_label_set_text dl (Chars ''27/10/2025'') d4\<rparr>;
          (bi, d5) = lv_label_create top_bar (lv s2);
          s3 = s2\<lparr>battery_icon := bi, lv := d5\<rparr>;
          (tl, d6) = lv_label_create screen (lv s3);
          s4 = s3\<lparr>time_label := tl, lv := d6\<rparr>;
          s5 = set_connection_status e s4;
          s6 = set_battery_status e s5;
          s7 = update_time e s6
      in (screen, s7))"

section \<open>Notions used to state the properties\<close>

text \<open>A pointer that refers to an object of the display.\<close>

definition valid_obj :: "lv_display \<Rightarrow> lv_obj_ptr \<Rightarrow> bool" where
  "valid_obj d p = (case p of None \<Rightarrow> False | Some h \<Rightarrow> h < length d)"

text \<open>
  The parent of an object (\<open>lv_obj_get_parent\<close>): \<open>Some parent\<close> for a pointer that
  refers to an object, where the parent of a screen is the null pointer, and \<open>None\<close>
  for a pointer that refers to no object.
\<close>

definition lv_obj_get_parent :: "lv_display \<Rightarrow> lv_obj_ptr \<Rightarrow> lv_obj_ptr option" where
  "lv_obj_get_parent d p =
     (case p of
        None \<Rightarrow> None
      | Some h \<Rightarrow> if h < length d then Some (obj_parent (d ! h)) else None)"

text \<open>The five battery glyphs.\<close>

definition battery_glyphs :: "lv_symbol list" where
  "battery_glyphs = [LV_SYMBOL_BATTERY_FULL, LV_SYMBOL_BATTERY_3, LV_SYMBOL_BATTERY_2,
     LV_SYMBOL_BATTERY_1, LV_SYMBOL_BATTERY_EMPTY]"

text \<open>A number below 100 written with exactly two decimal digits.\<close>

definition two_digits :: "nat \<Rightarrow> string" where
  "two_digits n = [digit_char (n div 10), digit_char (n mod 10)]"

text \<open>
  The clock as the specification words it, on mathematical integers with the division
  and remainder of HOL: total seconds, hours, minutes, both zero-padded to two digits.
\<close>

definition formatClock_spec :: "int \<Rightarrow> string" where
  "formatClock_spec elapsedMillis =
     (let totalSeconds = (elapsedMillis div 1000) mod 86400;
          hh = (totalSeconds div 3600) mod 24;
          mm = (totalSeconds mod 3600) div 60
      in two_digits (nat hh) @ '':'' @ two_digits (nat mm))"

text \<open>
  The calls of \<open>zmk_display_status_screen\<close> made so far, each with what the firmware
  reported at that moment, starting from the zeroed static \<open>state\<close>.
\<close>

definition run_screen :: "lv_display \<Rightarrow> env list \<Rightarrow> status_screen" where
  "run_screen d es = foldl (\<lambda>s e. snd (zmk_display_status_screen e s)) (screen_boot d) es"

text \<open>The four labels exist and are four different objects of the display.\<close>

definition labels_apart :: "'a status_screen_scheme \<Rightarrow> bool" where
  "labels_apart s =
     (valid_obj (lv s) (connection_icon s) \<and> valid_obj (lv s) (time_label s) \<and>
      valid_obj (lv s) (date_label s) \<and> valid_obj (lv s) (battery_icon s) \<and>
      distinct [connection_icon s, time_label s, date_label s, battery_icon s])"

text \<open>No label has been created yet.\<close>

definition no_labels :: "'a status_screen_scheme \<Rightarrow> bool" where
  "no_labels s =
     (connection_icon s = None \<and> time_label s = None \<and> date_label s = None \<and>
      battery_icon s = None)"

text \<open>The widget of the first file before and after \<open>zmk_widget_status_init\<close>.\<close>

definition unmounted :: "status_widget \<Rightarrow> bool" where
  "unmounted s =
     (no_labels s \<and> time_update_work s = \<lparr>work_handler = None, work_delay = None\<rparr>)"

definition mounted :: "status_widget \<Rightarrow> bool" where
  "mounted s =
     (labels_apart s \<and>
      label_shown (lv s) (date_label s) = Some (Chars ''27/10/2025'') \<and>
      time_update_work s =
        \<lparr>work_handler = Some TIME_UPDATE_WORK_HANDLER, work_delay = Some (K_SECONDS 1)\<rparr>)"

text \<open>The objects that \<open>zmk_widget_status_init\<close> has added to the display when it returns.\<close>

definition init_objs :: "env \<Rightarrow> lv_obj_ptr \<Rightarrow> nat \<Rightarrow> lv_obj list" where
  "init_objs e parent n =
     [\<lparr>obj_parent = parent, obj_text = None\<rparr>,
      \<lparr>obj_parent = Some n,
       obj_text = Some (if zmk_usb_is_powered e \<or> zmk_ble_active_profile_is_connected e
                        then WIFI_ICON else NO_WIFI_ICON)\<rparr>,
      \<lparr>obj_parent = Some n, obj_text = Some (Chars ''27/10/2025'')\<rparr>,
      \<lparr>obj_parent = Some n,
       obj_text = Some (battery_level_text (zmk_battery_state_of_charge e))\<rparr>,
      \<lparr>obj_parent = parent, obj_text = Some (Chars (time_str (k_uptime_get e)))\<rparr>]"

section \<open>Facts about the display\<close>

lemma length_lv_label_set_text [simp]: "length (lv_label_set_text p t d) = length d"
  by (simp add: lv_label_set_text_def split: option.split)

lemma valid_obj_set_text [simp]: "valid_obj (lv_label_set_text p t d) q = valid_obj d q"
  by (simp add: valid_obj_def split: option.split)

lemma label_shown_set_text:
  "label_shown (lv_label_set_text p t d) q =
     (if q = p \<and> valid_obj d p then Some t else label_shown d q)"
  by (auto simp add: label_shown_def lv_label_set_text_def valid_obj_def split: option.split)

lemma set_text_append:
  "lv_label_set_text (Some n) t (d @ xs) =
     (if n < length d then lv_label_set_text (Some n) t d @ xs
      else d @ lv_label_set_text (Some (n - length d)) t xs)"
  by (auto simp add: lv_label_set_text_def list_update_append nth_append)

lemma set_text_small:
  "lv_label_set_text (Some 0) t (x # xs) = x\<lparr>obj_text := Some t\<rparr> # xs"
  "lv_label_set_text (Some (Suc n)) t (x # xs) = x # lv_label_set_text (Some n) t xs"
  by (simp_all add: lv_label_set_text_def)

section \<open>The battery glyph\<close>

lemma battery_level_text_cases:
  "(80 < p \<longrightarrow> battery_level_text p = Symbol LV_SYMBOL_BATTERY_FULL) \<and>
   (60 < p \<and> p \<le> 80 \<longrightarrow> battery_level_text p = Symbol LV_SYMBOL_BATTERY_3) \<and>
   (40 < p \<and> p \<le> 60 \<longrightarrow> battery_level_text p = Symbol LV_SYMBOL_BATTERY_2) \<and>
   (20 < p \<and> p \<le> 40 \<longrightarrow> battery_level_text p = Symbol LV_SYMBOL_BATTERY_1) \<and>
   (p \<le> 20 \<longrightarrow> battery_level_text p = Symbol LV_SYMBOL_BATTERY_EMPTY)"
  unfolding battery_level_text_def
  by (auto simp add: word_less_nat_alt word_le_nat_alt)

lemma battery_level_text_boundaries:
  "map battery_level_text [20, 21, 40, 41, 60, 61, 80, 81, 0, 100] =
     map Symbol [LV_SYMBOL_BATTERY_EMPTY, LV_SYMBOL_BATTERY_1, LV_SYMBOL_BATTERY_1,
       LV_SYMBOL_BATTERY_2, LV_SYMBOL_BATTERY_2, LV_SYMBOL_BATTERY_3, LV_SYMBOL_BATTERY_3,
       LV_SYMBOL_BATTERY_FULL, LV_SYMBOL_BATTERY_EMPTY, LV_SYMBOL_BATTERY_FULL]"
  by (simp add: battery_level_text_def)

lemma battery_level_text_one_glyph:
  "\<exists>!g. g \<in> set battery_glyphs \<and> battery_level_text p = Symbol g"
  by (auto simp add: battery_level_text_def battery_glyphs_def)

lemma battery_level_text_min:
  "battery_level_text p = battery_level_text (min p 100)"
  unfolding battery_level_text_def min_def
  by (auto simp add: word_less_nat_alt word_le_nat_alt)

text \<open>
  C1. The glyph chosen for a battery level \<open>p\<close> follows five buckets with strict
  comparisons: above 80 the full glyph, 61 to 80 tier 3, 41 to 60 tier 2, 21 to 40 tier 1,
  at most 20 the empty glyph. The boundary values 20, 21, 40, 41, 60, 61, 80, 81 and the
  ends 0 and 100 map as that table says (80, 60, 40 and 20 belong to the lower bucket),
  and every level gets exactly one of the five glyphs.
\<close>

theorem battery_level_text_table:
  "((80 < p \<longrightarrow> battery_level_text p = Symbol LV_SYMBOL_BATTERY_FULL) \<and>
    (60 < p \<and> p \<le> 80 \<longrightarrow> battery_level_text p = Symbol LV_SYMBOL_BATTERY_3) \<and>
    (40 < p \<and> p \<le> 60 \<longrightarrow> battery_level_text p = Symbol LV_SYMBOL_BATTERY_2) \<and>
    (20 < p \<and> p \<le> 40 \<longrightarrow> battery_level_text p = Symbol LV_SYMBOL_BATTERY_1) \<and>
    (p \<le> 20 \<longrightarrow> battery_level_text p = Symbol LV_SYMBOL_BATTERY_EMPTY)) \<and>
   map battery_level_text [20, 21, 40, 41, 60, 61, 80, 81, 0, 100] =
     map Symbol [LV_SYMBOL_BATTERY_EMPTY, LV_SYMBOL_BATTERY_1, LV_SYMBOL_BATTERY_1,
       LV_SYMBOL_BATTERY_2, LV_SYMBOL_BATTERY_2, LV_SYMBOL_BATTERY_3, LV_SYMBOL_BATTERY_3,
       LV_SYMBOL_BATTERY_FULL, LV_SYMBOL_BATTERY_EMPTY, LV_SYMBOL_BATTERY_FULL] \<and>
   (\<exists>!g. g \<in> set battery_glyphs \<and> battery_level_text p = Symbol g)"
proof (rule conjI)
  show "(80 < p \<longrightarrow> battery_level_text p = Symbol LV_SYMBOL_BATTERY_FULL) \<and>
    (60 < p \<and> p \<le> 80 \<longrightarrow> battery_level_text p = Symbol LV_SYMBOL_BATTERY_3) \<and>
    (40 < p \<and> p \<le> 60 \<longrightarrow> battery_level_text p = Symbol LV_SYMBOL_BATTERY_2) \<and>
    (20 < p \<and> p \<le> 40 \<longrightarrow> battery_level_text p = Symbol LV_SYMBOL_BATTERY_1) \<and>
    (p \<le> 20 \<longrightarrow> battery_level_text p = Symbol LV_SYMBOL_BATTERY_EMPTY)"
    by (rule battery_level_text_cases)
qed (rule conjI, rule battery_level_text_boundaries, rule battery_level_text_one_glyph)

theorem battery_level_text_table_witness:
  "(80 :: 8 word) < 93 \<and> battery_level_text 93 = Symbol LV_SYMBOL_BATTERY_FULL \<and>
   (60 :: 8 word) < 77 \<and> (77 :: 8 word) \<le> 80 \<and>
     battery_level_text 77 = Symbol LV_SYMBOL_BATTERY_3 \<and>
   (40 :: 8 word) < 45 \<and> (45 :: 8 word) \<le> 60 \<and>
     battery_level_text 45 = Symbol LV_SYMBOL_BATTERY_2 \<and>
   (20 :: 8 word) < 33 \<and> (33 :: 8 word) \<le> 40 \<and>
     battery_level_text 33 = Symbol LV_SYMBOL_BATTERY_1 \<and>
   (15 :: 8 word) \<le> 20 \<and> battery_level_text 15 = Symbol LV_SYMBOL_BATTERY_EMPTY"
  using battery_level_text_table [of 93] battery_level_text_table [of 77]
    battery_level_text_table [of 45] battery_level_text_table [of 33]
    battery_level_text_table [of 15]
  by simp

section \<open>The update functions without their guards\<close>

text \<open>
  Writing through a null pointer is modelled as no change, so each guarded update equals
  one unguarded write.
\<close>

lemma update_connection_icon_eq:
  "update_connection_icon e s =
     s\<lparr>lv := lv_label_set_text (connection_icon s)
             (if zmk_usb_is_powered e \<or> zmk_ble_active_profile_is_connected e
              then WIFI_ICON else NO_WIFI_ICON) (lv s),
       is_connected := (if connection_icon s = None then is_connected s
                        else zmk_usb_is_powered e \<or> zmk_ble_active_profile_is_connected e)\<rparr>"
  by (simp add: update_connection_icon_def lv_label_set_text_def)

lemma update_time_display_eq:
  "update_time_display e s =
     s\<lparr>lv := lv_label_set_text (time_label s) (Chars (time_str (k_uptime_get e))) (lv s)\<rparr>"
  by (simp add: update_time_display_def lv_label_set_text_def)

lemma update_date_display_eq:
  "update_date_display s =
     s\<lparr>lv := lv_label_set_text (date_label s) (Chars ''27/10/2025'') (lv s)\<rparr>"
  by (simp add: update_date_display_def lv_label_set_text_def)

lemma update_battery_icon_eq:
  "update_battery_icon e s =
     s\<lparr>lv := lv_label_set_text (battery_icon s)
             (battery_level_text (zmk_battery_state_of_charge e)) (lv s)\<rparr>"
  by (simp add: update_battery_icon_def lv_label_set_text_def)

lemma update_connection_icon_inst_eq:
  "update_connection_icon_inst e icon d =
     lv_label_set_text icon
       (if zmk_usb_is_powered e \<or> zmk_ble_active_profile_is_connected e
        then WIFI_ICON else NO_WIFI_ICON) d"
  by (simp add: update_connection_icon_inst_def lv_label_set_text_def)

lemma update_time_display_inst_eq:
  "update_time_display_inst e label d =
     lv_label_set_text label (Chars (time_str (k_uptime_get e))) d"
  by (simp add: update_time_display_inst_def lv_label_set_text_def)

lemma update_battery_icon_inst_eq:
  "update_battery_icon_inst e icon d =
     lv_label_set_text icon (battery_level_text (zmk_battery_state_of_charge e)) d"
  by (simp add: update_battery_icon_inst_def lv_label_set_text_def)

lemma set_connection_status_eq:
  "set_connection_status e s =
     s\<lparr>lv := lv_label_set_text (connection_icon s)
             (if zmk_usb_is_powered e \<or> zmk_ble_active_profile_is_connected e
              then WIFI_ICON else NO_WIFI_ICON) (lv s)\<rparr>"
  by (simp add: set_connection_status_def lv_label_set_text_def)

lemma set_battery_status_eq:
  "set_battery_status e s =
     s\<lparr>lv := lv_label_set_text (battery_icon s)
             (battery_level_text (zmk_battery_state_of_charge e)) (lv s)\<rparr>"
  by (simp add: set_battery_status_def lv_label_set_text_def)

lemma update_time_eq:
  "update_time e s =
     s\<lparr>lv := lv_label_set_text (time_label s) (Chars (time_str (k_uptime_get e))) (lv s)\<rparr>"
  by (simp add: update_time_def lv_label_set_text_def)

text \<open>
  C4. A battery level above 100 selects the glyph that the level clamped to 100 selects:
  the glyph for \<open>p\<close> is the glyph for \<open>min p 100\<close>, and each of the three battery
  refresh functions leaves the same state behind for the raw and for the clamped reading.
\<close>

theorem battery_icon_as_if_clamped:
  "battery_level_text p = battery_level_text (min p 100) \<and>
   update_battery_icon e s =
     update_battery_icon
       (e\<lparr>zmk_battery_state_of_charge := min (zmk_battery_state_of_charge e) 100\<rparr>) s \<and>
   update_battery_icon_inst e icon d =
     update_battery_icon_inst
       (e\<lparr>zmk_battery_state_of_charge := min (zmk_battery_state_of_charge e) 100\<rparr>) icon d \<and>
   set_battery_status e c =
     set_battery_status
       (e\<lparr>zmk_battery_state_of_charge := min (zmk_battery_state_of_charge e) 100\<rparr>) c"
  using battery_level_text_min [of p] battery_level_text_min [of "zmk_battery_state_of_charge e"]
  by (simp add: update_battery_icon_eq update_battery_icon_inst_eq set_battery_status_eq)

section \<open>The clock\<close>

lemma sint_word_of_int_small:
  "- (2 ^ (LENGTH('a) - 1)) \<le> k \<Longrightarrow> k < 2 ^ (LENGTH('a::len) - 1) \<Longrightarrow>
   sint (word_of_int k :: 'a word) = k"
  by (simp add: sint_sbintrunc' signed_take_bit_int_eq_self)

lemma sdiv_nonneg: "0 \<le> (a::int) \<Longrightarrow> 0 < b \<Longrightarrow> a sdiv b = a div b"
  by (simp add: signed_divide_int_def sgn_if)

lemma smod_nonneg: "0 \<le> (a::int) \<Longrightarrow> 0 < b \<Longrightarrow> a smod b = a mod b"
  by (simp add: signed_modulo_int_def sgn_if)

lemma c_div_nonneg:
  fixes a b :: "'a::len word"
  assumes "0 \<le> sint a" "0 < sint b"
  shows "sint (c_div a b) = sint a div sint b"
proof -
  have "sint a div sint b \<le> sint a"
  proof (cases "sint a = 0")
    case True
    then show ?thesis by simp
  next
    case False
    with assms have "0 < sint a" by simp
    then show ?thesis by (rule int_div_le_self)
  qed
  moreover have "sint a < 2 ^ (LENGTH('a) - 1)" by (rule sint_lt)
  ultimately have up: "sint a div sint b < 2 ^ (LENGTH('a) - 1)" by linarith
  have "0 \<le> sint a div sint b" using assms by (simp add: pos_imp_zdiv_nonneg_iff)
  moreover have "(0::int) \<le> 2 ^ (LENGTH('a) - 1)" by simp
  ultimately have lo: "- (2 ^ (LENGTH('a) - 1)) \<le> sint a div sint b" by linarith
  show ?thesis
    using assms sint_word_of_int_small [OF lo up] by (simp add: c_div_def sdiv_nonneg)
qed

lemma c_mod_nonneg:
  fixes a b :: "'a::len word"
  assumes "0 \<le> sint a" "0 < sint b"
  shows "sint (c_mod a b) = sint a mod sint b"
proof -
  have "sint a mod sint b < sint b" using assms by simp
  moreover have "sint b < 2 ^ (LENGTH('a) - 1)" by (rule sint_lt)
  ultimately have up: "sint a mod sint b < 2 ^ (LENGTH('a) - 1)" by linarith
  have "0 \<le> sint a mod sint b" using assms by simp
  moreover have "(0::int) \<le> 2 ^ (LENGTH('a) - 1)" by simp
  ultimately have lo: "- (2 ^ (LENGTH('a) - 1)) \<le> sint a mod sint b" by linarith
  show ?thesis
    using assms sint_word_of_int_small [OF lo up] by (simp add: c_mod_def smod_nonneg)
qed

lemma sint_total_seconds:
  assumes "0 \<le> sint u"
  shows "sint (total_seconds u) = (sint u div 1000) mod 86400"
proof -
  have d: "sint (c_div u 1000) = sint u div 1000"
    using assms by (simp add: c_div_nonneg)
  then have d0: "0 \<le> sint (c_div u 1000)"
    using assms by (simp add: pos_imp_zdiv_nonneg_iff)
  have m: "sint (c_mod (c_div u 1000) 86400) = (sint u div 1000) mod 86400"
    using d0 d by (simp add: c_mod_nonneg)
  have "0 \<le> (sint u div 1000) mod 86400" "(sint u div 1000) mod 86400 < 86400"
    by simp_all
  then have "sint (word_of_int ((sint u div 1000) mod 86400) :: 32 word) = (sint u div 1000) mod 86400"
    by (intro sint_word_of_int_small) simp_all
  then show ?thesis
    by (simp add: total_seconds_def scast_eq m)
qed

lemma sint_hours:
  assumes "0 \<le> sint ts"
  shows "sint (hours ts) = (sint ts div 3600) mod 24"
proof -
  have d: "sint (c_div ts 3600) = sint ts div 3600"
    using assms by (simp add: c_div_nonneg)
  then have "0 \<le> sint (c_div ts 3600)"
    using assms by (simp add: pos_imp_zdiv_nonneg_iff)
  then show ?thesis
    using d by (simp add: hours_def c_mod_nonneg)
qed

lemma sint_minutes:
  assumes "0 \<le> sint ts"
  shows "sint (minutes ts) = (sint ts mod 3600) div 60"
proof -
  have m: "sint (c_mod ts 3600) = sint ts mod 3600"
    using assms by (simp add: c_mod_nonneg)
  then have "0 \<le> sint (c_mod ts 3600)" by simp
  then show ?thesis
    using m by (simp add: minutes_def c_div_nonneg)
qed

lemma decimal_small: "n < 10 \<Longrightarrow> decimal n = [digit_char n]"
  by (simp add: decimal.simps)

lemma decimal_two:
  "10 \<le> n \<Longrightarrow> n < 100 \<Longrightarrow> decimal n = [digit_char (n div 10), digit_char (n mod 10)]"
  by (subst decimal.simps) (simp add: decimal_small)

lemma fmt_02d_two_digits:
  assumes "0 \<le> n" "n < 100"
  shows "fmt_02d n = two_digits (nat n)"
proof (cases "nat n < 10")
  case True
  with assms show ?thesis
    by (simp add: fmt_02d_def two_digits_def decimal_small digit_char_def)
next
  case False
  with assms have "10 \<le> nat n" "nat n < 100" by simp_all
  then have "decimal (nat n) = [digit_char (nat n div 10), digit_char (nat n mod 10)]"
    by (rule decimal_two)
  with assms show ?thesis
    by (simp add: fmt_02d_def two_digits_def)
qed

text \<open>Hours and minutes of a nonnegative uptime, and the string built from them.\<close>

lemma time_parts:
  assumes "0 \<le> sint u"
  defines "ts \<equiv> (sint u div 1000) mod 86400"
  shows "sint (hours (total_seconds u)) = (ts div 3600) mod 24"
    and "sint (minutes (total_seconds u)) = (ts mod 3600) div 60"
    and "0 \<le> (ts div 3600) mod 24" and "(ts div 3600) mod 24 < 24"
    and "0 \<le> (ts mod 3600) div 60" and "(ts mod 3600) div 60 < 60"
proof -
  have ts: "sint (total_seconds u) = ts"
    unfolding ts_def using assms(1) by (rule sint_total_seconds)
  have ts0: "0 \<le> sint (total_seconds u)" by (simp add: ts ts_def)
  show "sint (hours (total_seconds u)) = (ts div 3600) mod 24"
    using sint_hours [OF ts0] by (simp only: ts)
  show "sint (minutes (total_seconds u)) = (ts mod 3600) div 60"
    using sint_minutes [OF ts0] by (simp only: ts)
  show "0 \<le> (ts div 3600) mod 24" by (rule pos_mod_sign) simp
  show "(ts div 3600) mod 24 < 24" by (rule pos_mod_bound) simp
  have "ts mod 3600 < 3600" by simp
  then show "(ts mod 3600) div 60 < 60" by simp
  show "0 \<le> (ts mod 3600) div 60" by (simp add: pos_imp_zdiv_nonneg_iff)
qed

lemma time_str_untruncated:
  assumes "0 \<le> sint u"
  shows "time_str u = fmt_02d (sint (hours (total_seconds u))) @ '':'' @
           fmt_02d (sint (minutes (total_seconds u)))"
    and "fmt_02d (sint (hours (total_seconds u))) =
           two_digits (nat (sint (hours (total_seconds u))))"
    and "fmt_02d (sint (minutes (total_seconds u))) =
           two_digits (nat (sint (minutes (total_seconds u))))"
proof -
  note p = time_parts [OF assms]
  have hb: "0 \<le> sint (hours (total_seconds u))" "sint (hours (total_seconds u)) < 100"
    using p(3,4) by (simp_all only: p(1))
  have mb: "0 \<le> sint (minutes (total_seconds u))" "sint (minutes (total_seconds u)) < 100"
    using p(5,6) by (simp_all only: p(2))
  show h2: "fmt_02d (sint (hours (total_seconds u))) =
           two_digits (nat (sint (hours (total_seconds u))))"
    using hb by (rule fmt_02d_two_digits)
  show m2: "fmt_02d (sint (minutes (total_seconds u))) =
           two_digits (nat (sint (minutes (total_seconds u))))"
    using mb by (rule fmt_02d_two_digits)
  show "time_str u = fmt_02d (sint (hours (total_seconds u))) @ '':'' @
           fmt_02d (sint (minutes (total_seconds u)))"
    by (simp add: time_str_def snprintf_02d_02d_def h2 m2 two_digits_def)
qed

lemma time_str_nonneg:
  assumes "0 \<le> sint u"
  shows "time_str u = formatClock_spec (sint u)"
  using time_str_untruncated [OF assms] time_parts(1,2) [OF assms]
  by (simp only: formatClock_spec_def Let_def)

lemma time_str_examples:
  "time_str 0 = ''00:00''" "time_str 3661000 = ''01:01''"
  "time_str 86400000 = ''00:00''" "time_str 86399999 = ''23:59''"
  by (simp_all add: time_str_def snprintf_02d_02d_def fmt_02d_def hours_def minutes_def
      total_seconds_def c_div_def c_mod_def decimal.simps digit_char_def
      signed_divide_int_def signed_modulo_int_def)


text \<open>
  C2. For an uptime of at least 0 milliseconds the clock string is built from
  total seconds = (ms / 1000) mod 86400, hours = (total seconds / 3600) mod 24 and
  minutes = (total seconds mod 3600) / 60, each written with two digits. So 0 ms gives
  "00:00", 3661000 ms gives "01:01", 86400000 ms gives "00:00" again and 86399999 ms
  gives "23:59".
\<close>

theorem time_str_formatClock:
  "(0 \<le> sint u \<longrightarrow> time_str u = formatClock_spec (sint u)) \<and>
   time_str 0 = ''00:00'' \<and> time_str 3661000 = ''01:01'' \<and>
   time_str 86400000 = ''00:00'' \<and> time_str 86399999 = ''23:59''"
  using time_str_nonneg [of u] time_str_examples by simp

theorem time_str_formatClock_witness:
  "0 \<le> sint (45296789 :: 64 word) \<and> time_str 45296789 = formatClock_spec 45296789 \<and>
   formatClock_spec 45296789 = ''12:34''"
  using time_str_formatClock [of 45296789]
  by (simp add: formatClock_spec_def two_digits_def digit_char_def)

text \<open>
  C5. Whenever the uptime is not negative, the text that \<open>update_time_display\<close> (in
  both variants that have it) writes to an existing time label is \<open>HH:MM\<close>: two digits
  of an hour below 24, a colon, two digits of a minute below 60, five characters in all,
  and it is the whole formatted string, so nothing was cut off by the six-byte buffer.
\<close>

theorem clock_text_five_chars:
  assumes "0 \<le> sint (k_uptime_get e)" and "valid_obj (lv s) (time_label s)"
  shows "\<exists>hh mm. hh < 24 \<and> mm < 60 \<and>
     label_shown (lv (update_time_display e s)) (time_label s) =
       Some (Chars (two_digits hh @ '':'' @ two_digits mm)) \<and>
     label_shown (update_time_display_inst e (time_label s) (lv s)) (time_label s) =
       Some (Chars (two_digits hh @ '':'' @ two_digits mm)) \<and>
     length (two_digits hh @ '':'' @ two_digits mm) = 5 \<and>
     two_digits hh @ '':'' @ two_digits mm =
       fmt_02d (sint (hours (total_seconds (k_uptime_get e)))) @ '':'' @
       fmt_02d (sint (minutes (total_seconds (k_uptime_get e))))"
proof -
  let ?H = "sint (hours (total_seconds (k_uptime_get e)))"
  let ?M = "sint (minutes (total_seconds (k_uptime_get e)))"
  note p = time_parts [OF assms(1)]
  note t = time_str_untruncated [OF assms(1)]
  have "0 \<le> ?H" "?H < 24" using p(3,4) by (simp_all only: p(1))
  then have hb: "nat ?H < 24" by linarith
  have "0 \<le> ?M" "?M < 60" using p(5,6) by (simp_all only: p(2))
  then have mb: "nat ?M < 60" by linarith
  have str: "time_str (k_uptime_get e) = two_digits (nat ?H) @ '':'' @ two_digits (nat ?M)"
    using t by simp
  have "label_shown (lv (update_time_display e s)) (time_label s) =
       Some (Chars (two_digits (nat ?H) @ '':'' @ two_digits (nat ?M)))"
    using assms(2) by (simp add: update_time_display_eq label_shown_set_text str)
  moreover have "label_shown (update_time_display_inst e (time_label s) (lv s)) (time_label s) =
       Some (Chars (two_digits (nat ?H) @ '':'' @ two_digits (nat ?M)))"
    using assms(2) by (simp add: update_time_display_inst_eq label_shown_set_text str)
  moreover have "length (two_digits (nat ?H) @ '':'' @ two_digits (nat ?M)) = 5"
    by (simp add: two_digits_def)
  moreover have "two_digits (nat ?H) @ '':'' @ two_digits (nat ?M) =
      fmt_02d ?H @ '':'' @ fmt_02d ?M"
    using t(2,3) by simp
  ultimately show ?thesis using hb mb by blast
qed

theorem clock_text_five_chars_witness:
  "\<exists>hh mm. hh < 24 \<and> mm < 60 \<and>
     label_shown (lv (update_time_display
         \<lparr>zmk_usb_is_powered = False, zmk_ble_active_profile_is_connected = True,
          zmk_battery_state_of_charge = 45, k_uptime_get = 86399999\<rparr>
         (snd (zmk_widget_status_init
           \<lparr>zmk_usb_is_powered = False, zmk_ble_active_profile_is_connected = True,
            zmk_battery_state_of_charge = 45, k_uptime_get = 0\<rparr> None (widget_boot [])))))
       (Some 4) = Some (Chars (two_digits hh @ '':'' @ two_digits mm))"
proof -
  let ?a = "\<lparr>zmk_usb_is_powered = False, zmk_ble_active_profile_is_connected = True,
            zmk_battery_state_of_charge = 45, k_uptime_get = 0\<rparr>"
  let ?b = "\<lparr>zmk_usb_is_powered = False, zmk_ble_active_profile_is_connected = True,
          zmk_battery_state_of_charge = 45, k_uptime_get = 86399999\<rparr>"
  let ?s = "snd (zmk_widget_status_init ?a None (widget_boot []))"
  have tl: "time_label ?s = Some 4"
    by (simp add: zmk_widget_status_init_def widget_boot_def lv_obj_create_def
        lv_label_create_def update_connection_icon_eq update_date_display_eq
        update_battery_icon_eq update_time_display_eq Let_def)
  have len: "length (lv ?s) = 5"
    by (simp add: zmk_widget_status_init_def widget_boot_def lv_obj_create_def
        lv_label_create_def update_connection_icon_eq update_date_display_eq
        update_battery_icon_eq update_time_display_eq Let_def)
  have h1: "0 \<le> sint (k_uptime_get ?b)" by simp
  have h2: "valid_obj (lv ?s) (time_label ?s)"
    by (simp only: tl valid_obj_def len) simp
  from clock_text_five_chars [OF h1 h2] obtain hh mm where
    "hh < 24" "mm < 60"
    "label_shown (lv (update_time_display ?b ?s)) (time_label ?s) =
       Some (Chars (two_digits hh @ '':'' @ two_digits mm))"
    by blast
  then show ?thesis by (simp only: tl) blast
qed

section \<open>The connection glyph\<close>

text \<open>
  C3. For each of the four combinations of USB power and Bluetooth connection, the
  connection label shows the connected glyph exactly when USB is powered or Bluetooth is
  connected, and the blank glyph otherwise; the three variants of the refresh agree.
\<close>

theorem connection_glyph_iff_usb_or_ble:
  "(valid_obj (lv s) (connection_icon s) \<longrightarrow>
      label_shown (lv (update_connection_icon e s)) (connection_icon s) =
        Some (if zmk_usb_is_powered e \<or> zmk_ble_active_profile_is_connected e
              then WIFI_ICON else NO_WIFI_ICON) \<and>
      is_connected (update_connection_icon e s) =
        (zmk_usb_is_powered e \<or> zmk_ble_active_profile_is_connected e)) \<and>
   (valid_obj d icon \<longrightarrow>
      label_shown (update_connection_icon_inst e icon d) icon =
        Some (if zmk_usb_is_powered e \<or> zmk_ble_active_profile_is_connected e
              then WIFI_ICON else NO_WIFI_ICON)) \<and>
   (valid_obj (lv c) (connection_icon c) \<longrightarrow>
      label_shown (lv (set_connection_status e c)) (connection_icon c) =
        Some (if zmk_usb_is_powered e \<or> zmk_ble_active_profile_is_connected e
              then WIFI_ICON else NO_WIFI_ICON)) \<and>
   WIFI_ICON \<noteq> NO_WIFI_ICON"
proof (intro conjI impI)
  assume "valid_obj (lv s) (connection_icon s)"
  then show "label_shown (lv (update_connection_icon e s)) (connection_icon s) =
        Some (if zmk_usb_is_powered e \<or> zmk_ble_active_profile_is_connected e
              then WIFI_ICON else NO_WIFI_ICON)"
    by (simp add: update_connection_icon_eq label_shown_set_text)
next
  assume "valid_obj (lv s) (connection_icon s)"
  then show "is_connected (update_connection_icon e s) =
        (zmk_usb_is_powered e \<or> zmk_ble_active_profile_is_connected e)"
    by (auto simp add: update_connection_icon_eq valid_obj_def)
next
  assume "valid_obj d icon"
  then show "label_shown (update_connection_icon_inst e icon d) icon =
        Some (if zmk_usb_is_powered e \<or> zmk_ble_active_profile_is_connected e
              then WIFI_ICON else NO_WIFI_ICON)"
    by (simp add: update_connection_icon_inst_eq label_shown_set_text)
next
  assume "valid_obj (lv c) (connection_icon c)"
  then show "label_shown (lv (set_connection_status e c)) (connection_icon c) =
        Some (if zmk_usb_is_powered e \<or> zmk_ble_active_profile_is_connected e
              then WIFI_ICON else NO_WIFI_ICON)"
    by (simp add: set_connection_status_eq label_shown_set_text)
next
  show "WIFI_ICON \<noteq> NO_WIFI_ICON"
    by (simp add: WIFI_ICON_def NO_WIFI_ICON_def)
qed

theorem connection_glyph_iff_usb_or_ble_witness:
  "map (\<lambda>(usb, ble).
      let e = \<lparr>zmk_usb_is_powered = usb, zmk_ble_active_profile_is_connected = ble,
               zmk_battery_state_of_charge = 45, k_uptime_get = 0\<rparr>;
          d = [\<lparr>obj_parent = None, obj_text = Some (Chars ''Text'')\<rparr>];
          s = (widget_boot d)\<lparr>connection_icon := Some 0\<rparr>;
          c = (screen_boot d)\<lparr>connection_icon := Some 0\<rparr>
      in (valid_obj d (Some 0),
          label_shown (lv (update_connection_icon e s)) (Some 0),
          label_shown (update_connection_icon_inst e (Some 0) d) (Some 0),
          label_shown (lv (set_connection_status e c)) (Some 0)))
     [(False, False), (False, True), (True, False), (True, True)] =
   [(True, Some NO_WIFI_ICON, Some NO_WIFI_ICON, Some NO_WIFI_ICON),
    (True, Some WIFI_ICON, Some WIFI_ICON, Some WIFI_ICON),
    (True, Some WIFI_ICON, Some WIFI_ICON, Some WIFI_ICON),
    (True, Some WIFI_ICON, Some WIFI_ICON, Some WIFI_ICON)]"
proof -
  let ?d = "[\<lparr>obj_parent = None, obj_text = Some (Chars ''Text'')\<rparr>]"
  let ?s = "(widget_boot ?d)\<lparr>connection_icon := Some 0\<rparr>"
  let ?c = "(screen_boot ?d)\<lparr>connection_icon := Some 0\<rparr>"
  let ?e = "\<lambda>usb ble. \<lparr>zmk_usb_is_powered = usb, zmk_ble_active_profile_is_connected = ble,
               zmk_battery_state_of_charge = 45, k_uptime_get = 0\<rparr>"
  have v: "valid_obj ?d (Some 0)" by (simp add: valid_obj_def)
  have vs: "valid_obj (lv ?s) (connection_icon ?s)"
    by (simp add: valid_obj_def widget_boot_def)
  have vc: "valid_obj (lv ?c) (connection_icon ?c)"
    by (simp add: valid_obj_def screen_boot_def)
  have ls: "lv ?s = ?d" "connection_icon ?s = Some 0" by (simp_all add: widget_boot_def)
  have lc: "lv ?c = ?d" "connection_icon ?c = Some 0" by (simp_all add: screen_boot_def)
  note t = connection_glyph_iff_usb_or_ble [where s = ?s and c = ?c and d = ?d and icon = "Some 0"]
  show ?thesis
    using v vs vc t [of "?e False False"] t [of "?e False True"] t [of "?e True False"]
      t [of "?e True True"]
    by (simp add: ls lc)
qed

section \<open>Null handles\<close>

text \<open>
  C8. Each of the three refresh functions (connection, time, battery), in each variant,
  returns at once when its label pointer is null: the state after the call is the state
  before it, so no text is written and nothing else changes, and there is no error value
  to return.
\<close>

theorem refresh_null_handle_no_op:
  "(connection_icon s = None \<longrightarrow> update_connection_icon e s = s) \<and>
   (time_label s = None \<longrightarrow> update_time_display e s = s) \<and>
   (battery_icon s = None \<longrightarrow> update_battery_icon e s = s) \<and>
   update_connection_icon_inst e None d = d \<and>
   update_time_display_inst e None d = d \<and>
   update_battery_icon_inst e None d = d \<and>
   (connection_icon c = None \<longrightarrow> set_connection_status e c = c) \<and>
   (time_label c = None \<longrightarrow> update_time e c = c) \<and>
   (battery_icon c = None \<longrightarrow> set_battery_status e c = c)"
  by (simp add: update_connection_icon_def update_time_display_def update_battery_icon_def
      update_connection_icon_inst_def update_time_display_inst_def
      update_battery_icon_inst_def set_connection_status_def update_time_def
      set_battery_status_def)

theorem refresh_null_handle_no_op_witness:
  "connection_icon (widget_boot []) = None \<and> time_label (widget_boot []) = None \<and>
   battery_icon (widget_boot []) = None \<and>
   connection_icon (screen_boot []) = None \<and> time_label (screen_boot []) = None \<and>
   battery_icon (screen_boot []) = None \<and>
   (let e = \<lparr>zmk_usb_is_powered = True, zmk_ble_active_profile_is_connected = True,
             zmk_battery_state_of_charge = 45, k_uptime_get = 3661000\<rparr>
    in update_connection_icon e (widget_boot []) = widget_boot [] \<and>
       update_time_display e (widget_boot []) = widget_boot [] \<and>
       update_battery_icon e (widget_boot []) = widget_boot [] \<and>
       set_connection_status e (screen_boot []) = screen_boot [] \<and>
       update_time e (screen_boot []) = screen_boot [] \<and>
       set_battery_status e (screen_boot []) = screen_boot [])"
  using refresh_null_handle_no_op [of "widget_boot []"
      "\<lparr>zmk_usb_is_powered = True, zmk_ble_active_profile_is_connected = True,
        zmk_battery_state_of_charge = 45, k_uptime_get = 3661000\<rparr>" "[]" "screen_boot []"]
  by (simp add: widget_boot_def screen_boot_def)

section \<open>What the three constructors leave behind\<close>

lemma zmk_widget_status_init_eq:
  "zmk_widget_status_init e parent s =
     (0, s\<lparr>connection_icon := Some (Suc (length (lv s))),
           time_label := Some (Suc (Suc (Suc (Suc (length (lv s)))))),
           date_label := Some (Suc (Suc (length (lv s)))),
           battery_icon := Some (Suc (Suc (Suc (length (lv s))))),
           lv := lv s @ init_objs e parent (length (lv s)),
           is_connected := zmk_usb_is_powered e \<or> zmk_ble_active_profile_is_connected e,
           time_update_work :=
             \<lparr>work_handler = Some TIME_UPDATE_WORK_HANDLER, work_delay = Some 1000\<rparr>\<rparr>)"
  by (simp add: zmk_widget_status_init_def lv_obj_create_def lv_label_create_def
      update_connection_icon_eq update_date_display_eq
      update_battery_icon_eq update_time_display_eq k_work_init_delayable_def
      k_work_schedule_def K_SECONDS_def init_objs_def set_text_append set_text_small
      Let_def eval_nat_numeral)

lemma zmk_widget_status_init_inst_eq:
  "zmk_widget_status_init_inst e w parent d =
     (0, w\<lparr>connection_icon := Some (Suc (Suc (length d))),
           time_label := Some (Suc (Suc (Suc (Suc (Suc (length d)))))),
           date_label := Some (Suc (Suc (Suc (length d)))),
           battery_icon := Some (Suc (Suc (Suc (Suc (length d))))),
           obj := Some (length d)\<rparr>,
      d @ \<lparr>obj_parent = parent, obj_text = None\<rparr> #
          init_objs e (Some (length d)) (Suc (length d)))"
  by (simp add: zmk_widget_status_init_inst_def lv_obj_create_def lv_label_create_def
      update_connection_icon_inst_eq update_battery_icon_inst_eq update_time_display_inst_eq
      init_objs_def set_text_append set_text_small Let_def eval_nat_numeral)

lemma zmk_display_status_screen_eq:
  "zmk_display_status_screen e s =
     (Some (length (lv s)),
      s\<lparr>connection_icon := Some (Suc (Suc (length (lv s)))),
        time_label := Some (Suc (Suc (Suc (Suc (Suc (length (lv s))))))),
        date_label := Some (Suc (Suc (Suc (length (lv s))))),
        battery_icon := Some (Suc (Suc (Suc (Suc (length (lv s)))))),
        lv := lv s @ \<lparr>obj_parent = None, obj_text = None\<rparr> #
                init_objs e (Some (length (lv s))) (Suc (length (lv s)))\<rparr>)"
  by (simp add: zmk_display_status_screen_def lv_obj_create_def lv_label_create_def
      set_connection_status_eq set_battery_status_eq update_time_eq
      init_objs_def set_text_append set_text_small Let_def eval_nat_numeral)


section \<open>Every state the widget can reach\<close>

lemma labels_apart_set_text [simp]:
  "labels_apart (s\<lparr>lv := lv_label_set_text p t (lv s)\<rparr>) = labels_apart s"
  by (simp add: labels_apart_def)

lemma mounted_init: "mounted (snd (zmk_widget_status_init e parent s))"
  by (simp add: zmk_widget_status_init_eq mounted_def labels_apart_def valid_obj_def
      label_shown_def init_objs_def nth_append K_SECONDS_def)

lemma mounted_update_connection_icon:
  "mounted s \<Longrightarrow> mounted (update_connection_icon e s)"
  by (auto simp add: mounted_def update_connection_icon_eq label_shown_set_text
      labels_apart_def)

lemma mounted_update_battery_icon:
  "mounted s \<Longrightarrow> mounted (update_battery_icon e s)"
  by (auto simp add: mounted_def update_battery_icon_eq label_shown_set_text
      labels_apart_def)

lemma mounted_update_time_display:
  "mounted s \<Longrightarrow> mounted (update_time_display e s)"
  by (auto simp add: mounted_def update_time_display_eq label_shown_set_text
      labels_apart_def)

lemma work_queue_run_mounted:
  assumes "mounted s"
  shows "work_queue_run e s = update_time_display e s"
proof -
  have w: "time_update_work s =
      \<lparr>work_handler = Some TIME_UPDATE_WORK_HANDLER, work_delay = Some (K_SECONDS 1)\<rparr>"
    using assms by (simp add: mounted_def)
  have "time_update_work (update_time_display e s) = time_update_work s"
    by (simp add: update_time_display_eq)
  then have "update_time_display e s =
      (update_time_display e s)\<lparr>time_update_work :=
        \<lparr>work_handler = Some TIME_UPDATE_WORK_HANDLER, work_delay = Some (K_SECONDS 1)\<rparr>\<rparr>"
    by (simp add: w)
  then show ?thesis
    by (simp add: work_queue_run_def w time_update_work_handler_def update_time_display_eq
        k_work_schedule_def Let_def)
qed

lemma mounted_dispatch: "mounted s \<Longrightarrow> mounted (dispatch s ev)"
  by (cases ev)
    (simp_all add: mounted_init widget_event_listener_def widget_battery_status_update_cb_def
      mounted_update_connection_icon mounted_update_battery_icon work_queue_run_mounted
      mounted_update_time_display)

lemma unmounted_dispatch:
  "unmounted s \<Longrightarrow> unmounted (dispatch s ev) \<or> mounted (dispatch s ev)"
  by (cases ev)
    (simp_all add: mounted_init widget_event_listener_def widget_battery_status_update_cb_def
      update_connection_icon_def update_battery_icon_def work_queue_run_def unmounted_def
      no_labels_def)

lemma run_snoc: "run d (evs @ [ev]) = dispatch (run d evs) ev"
  by (simp add: run_def)

lemma run_unmounted_or_mounted: "unmounted (run d evs) \<or> mounted (run d evs)"
proof (induction evs rule: rev_induct)
  case Nil
  show ?case by (simp add: run_def unmounted_def no_labels_def widget_boot_def)
next
  case (snoc ev evs)
  then show ?case
    using unmounted_dispatch [of "run d evs" ev] mounted_dispatch [of "run d evs" ev]
    by (auto simp add: run_snoc)
qed

lemma run_mounted: "mounted (run d (evs @ Mount e parent # evs'))"
proof (induction evs' rule: rev_induct)
  case Nil
  show ?case by (simp add: run_snoc mounted_init)
next
  case (snoc ev evs')
  have "run d (evs @ Mount e parent # evs' @ [ev]) =
      dispatch (run d (evs @ Mount e parent # evs')) ev"
    using run_snoc [of d "evs @ Mount e parent # evs'" ev] by simp
  with snoc show ?case by (simp add: mounted_dispatch)
qed

subsection \<open>The status screen\<close>

lemma labels_apart_screen: "labels_apart (snd (zmk_display_status_screen e s))"
  by (simp add: zmk_display_status_screen_eq labels_apart_def valid_obj_def init_objs_def)

lemma run_screen_snoc:
  "run_screen d (es @ [e]) = snd (zmk_display_status_screen e (run_screen d es))"
  by (simp add: run_screen_def)

lemma run_screen_labels: "no_labels (run_screen d es) \<or> labels_apart (run_screen d es)"
proof (cases es rule: rev_cases)
  case Nil
  then show ?thesis by (simp add: run_screen_def no_labels_def screen_boot_def)
next
  case (snoc es' e)
  then show ?thesis by (simp add: run_screen_snoc labels_apart_screen)
qed

section \<open>Refreshing the battery\<close>

lemma nth_lv_label_set_text:
  "Some i \<noteq> p \<Longrightarrow> lv_label_set_text p t d ! i = d ! i"
  by (auto simp add: lv_label_set_text_def nth_list_update split: option.split)

lemma valid_obj_None [simp]: "\<not> valid_obj d None"
  by (simp add: valid_obj_def)

lemma set_battery_frame:
  fixes s :: "'a status_screen_scheme" and t :: label_text
  assumes "no_labels s \<or> labels_apart s"
  defines "d' \<equiv> lv_label_set_text (battery_icon s) t (lv s)"
  shows "(battery_icon s \<noteq> None \<longrightarrow> label_shown d' (battery_icon s) = Some t) \<and>
     label_shown d' (connection_icon s) = label_shown (lv s) (connection_icon s) \<and>
     label_shown d' (time_label s) = label_shown (lv s) (time_label s) \<and>
     label_shown d' (date_label s) = label_shown (lv s) (date_label s) \<and>
     length d' = length (lv s) \<and>
     (\<forall>i < length (lv s). Some i \<noteq> battery_icon s \<longrightarrow> d' ! i = lv s ! i)"
  using assms(1) unfolding d'_def
  by (auto simp add: no_labels_def labels_apart_def label_shown_set_text nth_lv_label_set_text)


lemma run_labels: "no_labels (run d evs) \<or> labels_apart (run d evs)"
  using run_unmounted_or_mounted [of d evs] by (auto simp add: unmounted_def mounted_def)

text \<open>
  C9. In every state the widget can reach, and likewise on the status screen, refreshing
  the battery writes the glyph of the reported level into the battery label (when there
  is one) and leaves the texts of the connection, time and date labels, every other
  object of the display, the label pointers, the connection flag and the work item as
  they were.
\<close>

theorem refresh_battery_only_battery_glyph:
  "(let s = run d evs; s' = update_battery_icon e s in
      (battery_icon s \<noteq> None \<longrightarrow>
         label_shown (lv s') (battery_icon s) =
           Some (battery_level_text (zmk_battery_state_of_charge e))) \<and>
      label_shown (lv s') (connection_icon s) = label_shown (lv s) (connection_icon s) \<and>
      label_shown (lv s') (time_label s) = label_shown (lv s) (time_label s) \<and>
      label_shown (lv s') (date_label s) = label_shown (lv s) (date_label s) \<and>
      length (lv s') = length (lv s) \<and>
      (\<forall>i < length (lv s). Some i \<noteq> battery_icon s \<longrightarrow> lv s' ! i = lv s ! i) \<and>
      s' = s\<lparr>lv := lv s'\<rparr>) \<and>
   (let c = run_screen d es; c' = set_battery_status e c in
      (battery_icon c \<noteq> None \<longrightarrow>
         label_shown (lv c') (battery_icon c) =
           Some (battery_level_text (zmk_battery_state_of_charge e))) \<and>
      label_shown (lv c') (connection_icon c) = label_shown (lv c) (connection_icon c) \<and>
      label_shown (lv c') (time_label c) = label_shown (lv c) (time_label c) \<and>
      label_shown (lv c') (date_label c) = label_shown (lv c) (date_label c) \<and>
      length (lv c') = length (lv c) \<and>
      (\<forall>i < length (lv c). Some i \<noteq> battery_icon c \<longrightarrow> lv c' ! i = lv c ! i) \<and>
      c' = c\<lparr>lv := lv c'\<rparr>)"
  using set_battery_frame [OF run_labels [of d evs],
      of "battery_level_text (zmk_battery_state_of_charge e)"]
    set_battery_frame [OF run_screen_labels [of d es],
      of "battery_level_text (zmk_battery_state_of_charge e)"]
  by (simp add: Let_def update_battery_icon_eq set_battery_status_eq)

theorem refresh_battery_only_battery_glyph_witness:
  "(let s = run [] [Mount \<lparr>zmk_usb_is_powered = False,
                zmk_ble_active_profile_is_connected = True,
                zmk_battery_state_of_charge = 45, k_uptime_get = 3661000\<rparr> None];
        s' = update_battery_icon \<lparr>zmk_usb_is_powered = False,
                zmk_ble_active_profile_is_connected = True,
                zmk_battery_state_of_charge = 15, k_uptime_get = 3662000\<rparr> s
    in battery_icon s \<noteq> None \<and>
       label_shown (lv s) (battery_icon s) = Some (Symbol LV_SYMBOL_BATTERY_2) \<and>
       label_shown (lv s') (battery_icon s) = Some (Symbol LV_SYMBOL_BATTERY_EMPTY) \<and>
       label_shown (lv s') (connection_icon s) = Some WIFI_ICON \<and>
       label_shown (lv s') (time_label s) = Some (Chars ''01:01'') \<and>
       label_shown (lv s') (date_label s) = Some (Chars ''27/10/2025''))"
proof -
  let ?a = "\<lparr>zmk_usb_is_powered = False, zmk_ble_active_profile_is_connected = True,
             zmk_battery_state_of_charge = 45, k_uptime_get = 3661000\<rparr>"
  let ?b = "\<lparr>zmk_usb_is_powered = False, zmk_ble_active_profile_is_connected = True,
             zmk_battery_state_of_charge = 15, k_uptime_get = 3662000\<rparr>"
  let ?s = "run [] [Mount ?a None]"
  have p: "connection_icon ?s = Some (Suc 0)" "time_label ?s = Some 4" "date_label ?s = Some 2"
    "battery_icon ?s = Some 3"
    by (simp_all add: run_def zmk_widget_status_init_eq widget_boot_def)
  have d: "lv ?s = init_objs ?a None 0"
    by (simp add: run_def zmk_widget_status_init_eq widget_boot_def)
  have before: "label_shown (lv ?s) (Some (Suc 0)) = Some WIFI_ICON"
    "label_shown (lv ?s) (Some 4) = Some (Chars ''01:01'')"
    "label_shown (lv ?s) (Some 2) = Some (Chars ''27/10/2025'')"
    "label_shown (lv ?s) (Some 3) = Some (Symbol LV_SYMBOL_BATTERY_2)"
    by (simp_all add: d init_objs_def label_shown_def time_str_examples
        battery_level_text_def)
  have "battery_level_text (zmk_battery_state_of_charge ?b) = Symbol LV_SYMBOL_BATTERY_EMPTY"
    by (simp add: battery_level_text_def)
  with refresh_battery_only_battery_glyph [of "[]" "[Mount ?a None]" ?b "[]"] show ?thesis
    by (simp add: Let_def p before)
qed

section \<open>The date\<close>

text \<open>
  C10. The date is a constant of the source. \<open>update_date_display\<close> writes
  "27/10/2025" into an existing date label whatever the firmware reports, each of the
  three constructors leaves a date label that shows "27/10/2025", and after a mount no
  later event changes what the date label of the first file shows.
\<close>

theorem date_label_always_27_10_2025:
  "(valid_obj (lv s) (date_label s) \<longrightarrow>
      label_shown (lv (update_date_display s)) (date_label s) = Some (Chars ''27/10/2025'')) \<and>
   (let s' = snd (zmk_widget_status_init e parent s)
    in label_shown (lv s') (date_label s') = Some (Chars ''27/10/2025'')) \<and>
   (let (rc, w', d') = zmk_widget_status_init_inst e w parent d
    in label_shown d' (date_label w') = Some (Chars ''27/10/2025'')) \<and>
   (let c' = snd (zmk_display_status_screen e c)
    in label_shown (lv c') (date_label c') = Some (Chars ''27/10/2025'')) \<and>
   (let r = run d (evs @ Mount e parent # evs')
    in label_shown (lv r) (date_label r) = Some (Chars ''27/10/2025''))"
proof (intro conjI impI)
  assume "valid_obj (lv s) (date_label s)"
  then show "label_shown (lv (update_date_display s)) (date_label s) =
      Some (Chars ''27/10/2025'')"
    by (simp add: update_date_display_eq label_shown_set_text)
next
  show "let s' = snd (zmk_widget_status_init e parent s)
    in label_shown (lv s') (date_label s') = Some (Chars ''27/10/2025'')"
    using mounted_init [of e parent s] by (simp add: mounted_def)
next
  show "let (rc, w', d') = zmk_widget_status_init_inst e w parent d
    in label_shown d' (date_label w') = Some (Chars ''27/10/2025'')"
    by (simp add: zmk_widget_status_init_inst_eq label_shown_def init_objs_def nth_append)
next
  show "let c' = snd (zmk_display_status_screen e c)
    in label_shown (lv c') (date_label c') = Some (Chars ''27/10/2025'')"
    by (simp add: zmk_display_status_screen_eq label_shown_def init_objs_def nth_append)
next
  show "let r = run d (evs @ Mount e parent # evs')
    in label_shown (lv r) (date_label r) = Some (Chars ''27/10/2025'')"
    using run_mounted [of d evs e parent evs'] by (simp add: mounted_def)
qed

theorem date_label_always_27_10_2025_witness:
  "(let a = \<lparr>zmk_usb_is_powered = True, zmk_ble_active_profile_is_connected = False,
             zmk_battery_state_of_charge = 77, k_uptime_get = 86399999\<rparr>;
        s = (widget_boot [\<lparr>obj_parent = None, obj_text = Some (Chars ''Text'')\<rparr>])
              \<lparr>date_label := Some 0\<rparr>
    in valid_obj (lv s) (date_label s) \<and>
       label_shown (lv s) (date_label s) = Some (Chars ''Text'') \<and>
       label_shown (lv (update_date_display s)) (date_label s) = Some (Chars ''27/10/2025''))"
proof -
  let ?s = "(widget_boot [\<lparr>obj_parent = None, obj_text = Some (Chars ''Text'')\<rparr>])
              \<lparr>date_label := Some 0\<rparr>"
  have v: "valid_obj (lv ?s) (date_label ?s)"
    by (simp add: widget_boot_def valid_obj_def)
  have b: "label_shown (lv ?s) (date_label ?s) = Some (Chars ''Text'')"
    by (simp add: widget_boot_def label_shown_def)
  from date_label_always_27_10_2025 [of ?s] v b show ?thesis
    by (simp only: Let_def)
qed

section \<open>The one-second timer\<close>

text \<open>
  C6, as the code has it. In \<open>arionaryabhatta_widget.c\<close> the handler, run by the work
  queue for an item that is no longer scheduled, refreshes the time label and schedules
  the item again with a delay of one second (1000 ms). So from the first mount on the
  item is scheduled with that delay in every state, and every expiry leaves the time of
  that moment in the time label and the item scheduled again. The handler of the
  per-instance variant has an empty body: it changes neither the work item nor the
  display.
\<close>

theorem time_update_work_rearmed_in_first_file:
  "(work_delay (time_update_work s) = None \<longrightarrow>
      time_update_work (time_update_work_handler e s) =
        (time_update_work s)\<lparr>work_delay := Some (K_SECONDS 1)\<rparr> \<and>
      lv (time_update_work_handler e s) = lv (update_time_display e s)) \<and>
   (let r = run d (evs @ Mount e0 parent # evs'); r' = dispatch r (Work_timeout e)
    in time_update_work r =
         \<lparr>work_handler = Some TIME_UPDATE_WORK_HANDLER, work_delay = Some (K_SECONDS 1)\<rparr> \<and>
       time_update_work r' = time_update_work r \<and>
       label_shown (lv r') (time_label r') = Some (Chars (time_str (k_uptime_get e)))) \<and>
   time_update_work_handler_inst e (w, dd) = (w, dd) \<and>
   K_SECONDS 1 = 1000"
proof (intro conjI impI)
  assume "work_delay (time_update_work s) = None"
  then show "time_update_work (time_update_work_handler e s) =
        (time_update_work s)\<lparr>work_delay := Some (K_SECONDS 1)\<rparr>"
    by (simp add: time_update_work_handler_def update_time_display_eq k_work_schedule_def
        Let_def)
next
  show "lv (time_update_work_handler e s) = lv (update_time_display e s)"
    by (simp add: time_update_work_handler_def Let_def)
next
  let ?r = "run d (evs @ Mount e0 parent # evs')"
  have m: "mounted ?r" by (rule run_mounted)
  then have m': "mounted (dispatch ?r (Work_timeout e))" by (rule mounted_dispatch)
  have v: "valid_obj (lv ?r) (time_label ?r)"
    using m by (simp add: mounted_def labels_apart_def)
  have "label_shown (lv (update_time_display e ?r)) (time_label (update_time_display e ?r)) =
      Some (Chars (time_str (k_uptime_get e)))"
    using v by (simp add: update_time_display_eq label_shown_set_text)
  then show "let r = ?r; r' = dispatch r (Work_timeout e)
    in time_update_work r =
         \<lparr>work_handler = Some TIME_UPDATE_WORK_HANDLER, work_delay = Some (K_SECONDS 1)\<rparr> \<and>
       time_update_work r' = time_update_work r \<and>
       label_shown (lv r') (time_label r') = Some (Chars (time_str (k_uptime_get e)))"
    using m m' by (simp add: Let_def mounted_def work_queue_run_mounted [OF m])
next
  show "time_update_work_handler_inst e (w, dd) = (w, dd)"
    by (simp add: time_update_work_handler_inst_def)
next
  show "K_SECONDS 1 = 1000" by (simp add: K_SECONDS_def)
qed

theorem time_update_work_rearmed_in_first_file_witness:
  "(let a = \<lparr>zmk_usb_is_powered = True, zmk_ble_active_profile_is_connected = False,
             zmk_battery_state_of_charge = 77, k_uptime_get = 86399999\<rparr>;
        s = (widget_boot [])\<lparr>time_update_work :=
              \<lparr>work_handler = Some TIME_UPDATE_WORK_HANDLER, work_delay = None\<rparr>\<rparr>
    in work_delay (time_update_work s) = None \<and>
       time_update_work (time_update_work_handler a s) =
         \<lparr>work_handler = Some TIME_UPDATE_WORK_HANDLER, work_delay = Some 1000\<rparr>)"
proof -
  let ?a = "\<lparr>zmk_usb_is_powered = True, zmk_ble_active_profile_is_connected = False,
             zmk_battery_state_of_charge = 77, k_uptime_get = 86399999\<rparr>"
  let ?s = "(widget_boot [])\<lparr>time_update_work :=
              \<lparr>work_handler = Some TIME_UPDATE_WORK_HANDLER, work_delay = None\<rparr>\<rparr>"
  have h: "work_delay (time_update_work ?s) = None" by simp
  from time_update_work_rearmed_in_first_file [of ?s ?a] h show ?thesis
    by (simp only: Let_def) simp
qed

text \<open>
  The handler of the per-instance variant, run for an item that is not scheduled, leaves
  it not scheduled.
\<close>

theorem time_update_work_handler_inst_not_rearmed:
  "work_delay (fst (time_update_work_handler_inst
      \<lparr>zmk_usb_is_powered = True, zmk_ble_active_profile_is_connected = False,
        zmk_battery_state_of_charge = 77, k_uptime_get = 86399999\<rparr>
      (\<lparr>work_handler = Some TIME_UPDATE_WORK_HANDLER, work_delay = None\<rparr>, []))) = None"
  by (simp add: time_update_work_handler_inst_def)

section \<open>The handle of the widget\<close>

text \<open>
  C7, as the code has it. \<open>zmk_widget_status_init\<close> takes the parent, adds the objects
  of the widget to the display, which keeps its earlier objects, and returns the status 0,
  not a handle, in both variants that have it.

  In \<open>arionaryabhatta_widget.c\<close> five objects are added: a top row and the time label
  under the parent itself, and the connection, date and battery labels under that top row.
  No object stands for the widget as a whole, and the accessor \<open>zmk_widget_status_obj\<close>
  returns a null pointer.

  In the per-instance variant six objects are added: a container under the parent, a top
  row and the time label under the container, the three other labels under the top row;
  the accessor returns the container. \<open>zmk_display_status_screen\<close> adds a screen (an
  object without parent) with the same six-object layout below it and returns the screen.
\<close>

theorem widget_handle_by_variant:
  "(let (rc, s') = zmk_widget_status_init e parent s; top_row = Some (length (lv s))
    in rc = 0 \<and> zmk_widget_status_obj s' = None \<and>
       length (lv s') = length (lv s) + 5 \<and> take (length (lv s)) (lv s') = lv s \<and>
       lv_obj_get_parent (lv s') top_row = Some parent \<and>
       lv_obj_get_parent (lv s') (time_label s') = Some parent \<and>
       lv_obj_get_parent (lv s') (connection_icon s') = Some top_row \<and>
       lv_obj_get_parent (lv s') (date_label s') = Some top_row \<and>
       lv_obj_get_parent (lv s') (battery_icon s') = Some top_row \<and>
       labels_apart s' \<and>
       distinct [top_row, connection_icon s', time_label s', date_label s', battery_icon s'] \<and>
       \<not> valid_obj (lv s) top_row \<and> \<not> valid_obj (lv s) (connection_icon s') \<and>
       \<not> valid_obj (lv s) (time_label s') \<and> \<not> valid_obj (lv s) (date_label s') \<and>
       \<not> valid_obj (lv s) (battery_icon s')) \<and>
   (let (rc, w', d') = zmk_widget_status_init_inst e w parent d;
        top_row = Some (Suc (length d))
    in rc = 0 \<and> zmk_widget_status_obj_inst w' = Some (length d) \<and>
       obj w' = Some (length d) \<and>
       length d' = length d + 6 \<and> take (length d) d' = d \<and>
       valid_obj d' (zmk_widget_status_obj_inst w') \<and>
       \<not> valid_obj d (zmk_widget_status_obj_inst w') \<and>
       lv_obj_get_parent d' (zmk_widget_status_obj_inst w') = Some parent \<and>
       lv_obj_get_parent d' top_row = Some (obj w') \<and>
       lv_obj_get_parent d' (time_label w') = Some (obj w') \<and>
       lv_obj_get_parent d' (connection_icon w') = Some top_row \<and>
       lv_obj_get_parent d' (date_label w') = Some top_row \<and>
       lv_obj_get_parent d' (battery_icon w') = Some top_row \<and>
       distinct [obj w', top_row, connection_icon w', time_label w', date_label w',
         battery_icon w']) \<and>
   (let (scr, c') = zmk_display_status_screen e c; top_bar = Some (Suc (length (lv c)))
    in scr = Some (length (lv c)) \<and>
       length (lv c') = length (lv c) + 6 \<and> take (length (lv c)) (lv c') = lv c \<and>
       valid_obj (lv c') scr \<and> \<not> valid_obj (lv c) scr \<and>
       lv_obj_get_parent (lv c') scr = Some None \<and>
       lv_obj_get_parent (lv c') top_bar = Some scr \<and>
       lv_obj_get_parent (lv c') (time_label c') = Some scr \<and>
       lv_obj_get_parent (lv c') (connection_icon c') = Some top_bar \<and>
       lv_obj_get_parent (lv c') (date_label c') = Some top_bar \<and>
       lv_obj_get_parent (lv c') (battery_icon c') = Some top_bar \<and>
       labels_apart c' \<and>
       distinct [scr, top_bar, connection_icon c', time_label c', date_label c',
         battery_icon c'])"
proof (intro conjI)
  show "let (rc, s') = zmk_widget_status_init e parent s; top_row = Some (length (lv s))
    in rc = 0 \<and> zmk_widget_status_obj s' = None \<and>
       length (lv s') = length (lv s) + 5 \<and> take (length (lv s)) (lv s') = lv s \<and>
       lv_obj_get_parent (lv s') top_row = Some parent \<and>
       lv_obj_get_parent (lv s') (time_label s') = Some parent \<and>
       lv_obj_get_parent (lv s') (connection_icon s') = Some top_row \<and>
       lv_obj_get_parent (lv s') (date_label s') = Some top_row \<and>
       lv_obj_get_parent (lv s') (battery_icon s') = Some top_row \<and>
       labels_apart s' \<and>
       distinct [top_row, connection_icon s', time_label s', date_label s', battery_icon s'] \<and>
       \<not> valid_obj (lv s) top_row \<and> \<not> valid_obj (lv s) (connection_icon s') \<and>
       \<not> valid_obj (lv s) (time_label s') \<and> \<not> valid_obj (lv s) (date_label s') \<and>
       \<not> valid_obj (lv s) (battery_icon s')"
    by (simp add: zmk_widget_status_init_eq zmk_widget_status_obj_def lv_obj_get_parent_def
        labels_apart_def valid_obj_def init_objs_def nth_append)
next
  show "let (rc, w', d') = zmk_widget_status_init_inst e w parent d;
        top_row = Some (Suc (length d))
    in rc = 0 \<and> zmk_widget_status_obj_inst w' = Some (length d) \<and>
       obj w' = Some (length d) \<and>
       length d' = length d + 6 \<and> take (length d) d' = d \<and>
       valid_obj d' (zmk_widget_status_obj_inst w') \<and>
       \<not> valid_obj d (zmk_widget_status_obj_inst w') \<and>
       lv_obj_get_parent d' (zmk_widget_status_obj_inst w') = Some parent \<and>
       lv_obj_get_parent d' top_row = Some (obj w') \<and>
       lv_obj_get_parent d' (time_label w') = Some (obj w') \<and>
       lv_obj_get_parent d' (connection_icon w') = Some top_row \<and>
       lv_obj_get_parent d' (date_label w') = Some top_row \<and>
       lv_obj_get_parent d' (battery_icon w') = Some top_row \<and>
       distinct [obj w', top_row, connection_icon w', time_label w', date_label w',
         battery_icon w']"
    by (simp add: zmk_widget_status_init_inst_eq zmk_widget_status_obj_inst_def
        lv_obj_get_parent_def valid_obj_def init_objs_def nth_append)
next
  show "let (scr, c') = zmk_display_status_screen e c; top_bar = Some (Suc (length (lv c)))
    in scr = Some (length (lv c)) \<and>
       length (lv c') = length (lv c) + 6 \<and> take (length (lv c)) (lv c') = lv c \<and>
       valid_obj (lv c') scr \<and> \<not> valid_obj (lv c) scr \<and>
       lv_obj_get_parent (lv c') scr = Some None \<and>
       lv_obj_get_parent (lv c') top_bar = Some scr \<and>
       lv_obj_get_parent (lv c') (time_label c') = Some scr \<and>
       lv_obj_get_parent (lv c') (connection_icon c') = Some top_bar \<and>
       lv_obj_get_parent (lv c') (date_label c') = Some top_bar \<and>
       lv_obj_get_parent (lv c') (battery_icon c') = Some top_bar \<and>
       labels_apart c' \<and>
       distinct [scr, top_bar, connection_icon c', time_label c', date_label c',
         battery_icon c']"
    by (simp add: zmk_display_status_screen_eq lv_obj_get_parent_def labels_apart_def
        valid_obj_def init_objs_def nth_append)
qed

text \<open>
  The display manager has created a screen, object 0, and mounts the widget of the first
  file on it. The call returns the number 0, five objects are added, the top row and the
  time label under the screen and the three other labels under the top row, and the
  accessor gives a null pointer, which refers to no object of the display.
\<close>

theorem zmk_widget_status_obj_absent:
  "fst (zmk_widget_status_init
      \<lparr>zmk_usb_is_powered = True, zmk_ble_active_profile_is_connected = False,
        zmk_battery_state_of_charge = 77, k_uptime_get = 86399999\<rparr>
      (Some 0) (widget_boot [\<lparr>obj_parent = None, obj_text = None\<rparr>])) = 0 \<and>
   map obj_parent (lv (snd (zmk_widget_status_init
      \<lparr>zmk_usb_is_powered = True, zmk_ble_active_profile_is_connected = False,
        zmk_battery_state_of_charge = 77, k_uptime_get = 86399999\<rparr>
      (Some 0) (widget_boot [\<lparr>obj_parent = None, obj_text = None\<rparr>])))) =
     [None, Some 0, Some 1, Some 1, Some 1, Some 0] \<and>
   zmk_widget_status_obj (snd (zmk_widget_status_init
      \<lparr>zmk_usb_is_powered = True, zmk_ble_active_profile_is_connected = False,
        zmk_battery_state_of_charge = 77, k_uptime_get = 86399999\<rparr>
      (Some 0) (widget_boot [\<lparr>obj_parent = None, obj_text = None\<rparr>]))) = None \<and>
   \<not> valid_obj (lv (snd (zmk_widget_status_init
      \<lparr>zmk_usb_is_powered = True, zmk_ble_active_profile_is_connected = False,
        zmk_battery_state_of_charge = 77, k_uptime_get = 86399999\<rparr>
      (Some 0) (widget_boot [\<lparr>obj_parent = None, obj_text = None\<rparr>]))))
     (zmk_widget_status_obj (snd (zmk_widget_status_init
      \<lparr>zmk_usb_is_powered = True, zmk_ble_active_profile_is_connected = False,
        zmk_battery_state_of_charge = 77, k_uptime_get = 86399999\<rparr>
      (Some 0) (widget_boot [\<lparr>obj_parent = None, obj_text = None\<rparr>]))))"
  by (simp add: zmk_widget_status_obj_def zmk_widget_status_init_eq widget_boot_def
      init_objs_def)

end
